theory Spec2Isabelle
  imports Complex_Main "HOL-Library.Word" "HOL-Library.Product_Lexorder"
begin

unbundle bit_operations_syntax

section \<open>BaseAligner.h: constants, hashing and location decomposition\<close>

text \<open>
  \<^verbatim>\<open>
  #ifdef LONG_READS
      static const unsigned maxMergeDist = 64; // Must be even and <= 64
  #else
      static const unsigned maxMergeDist = 48; // Must be even and <= 64
  #endif
  static const unsigned hashTableElementSize = maxMergeDist;
  \<close>
  The preprocessor symbol \<open>LONG_READS\<close> is a build-time switch; it is the boolean
  argument of the two constants. Both are \<open>unsigned\<close>, a 32-bit word.
\<close>

definition maxMergeDist :: "bool \<Rightarrow> 32 word" where
  "maxMergeDist LONG_READS = (if LONG_READS then 64 else 48)"

definition hashTableElementSize :: "bool \<Rightarrow> 32 word" where
  "hashTableElementSize LONG_READS = maxMergeDist LONG_READS"

text \<open>
  \<^verbatim>\<open>
  static inline _uint64 hash(_uint64 key) {
      key = key * 131;
      return key;
  }
  \<close>
  \<open>_uint64\<close> multiplication wraps modulo \<open>2 ^ 64\<close>, which is multiplication of
  64-bit words.
\<close>

definition hash :: "64 word \<Rightarrow> 64 word" where
  "hash key = key * 131"

text \<open>
  \<^verbatim>\<open>
  void decomposeGenomeLocation(GenomeLocation genomeLocation, _uint64 *highOrder, _uint64 *lowOrder)
  {
      *lowOrder = (_uint64)GenomeLocationAsInt64(genomeLocation) % hashTableElementSize;
      if (NULL != highOrder) {
          *highOrder = (_uint64)GenomeLocationAsInt64(genomeLocation) - *lowOrder;
      }
  }
  \<close>
  A genome location is a signed 64-bit offset, an \<open>int\<close> here; the cast to
  \<open>_uint64\<close> is \<open>word_of_int\<close> (reduction modulo \<open>2 ^ 64\<close>). The 32-bit
  \<open>hashTableElementSize\<close> is widened to 64 bits for the remainder. The out-parameter
  \<open>highOrder\<close> may be \<open>NULL\<close>: the flag \<open>wantHighOrder\<close> says whether the caller
  passed a pointer, and the first component of the result is what was stored through it.
  \<open>lowOrder\<close> is always stored.
\<close>

type_synonym GenomeLocation = int

definition decomposeGenomeLocation ::
  "bool \<Rightarrow> GenomeLocation \<Rightarrow> bool \<Rightarrow> 64 word option \<times> 64 word" where
  "decomposeGenomeLocation LONG_READS genomeLocation wantHighOrder =
     (let lowOrder = (word_of_int genomeLocation :: 64 word) mod ucast (hashTableElementSize LONG_READS)
      in (if wantHighOrder then Some ((word_of_int genomeLocation :: 64 word) - lowOrder) else None,
          lowOrder))"

text \<open>The two values a caller that passes both pointers reads back.\<close>

definition lowOrder_of :: "bool \<Rightarrow> GenomeLocation \<Rightarrow> 64 word" where
  "lowOrder_of LONG_READS genomeLocation = snd (decomposeGenomeLocation LONG_READS genomeLocation True)"

definition highOrder_of :: "bool \<Rightarrow> GenomeLocation \<Rightarrow> 64 word" where
  "highOrder_of LONG_READS genomeLocation =
     (case fst (decomposeGenomeLocation LONG_READS genomeLocation True) of
        Some h \<Rightarrow> h | None \<Rightarrow> 0)"

text \<open>
  The specification's vocabulary for the window size: a power of two, and a location
  with its low \<open>k\<close> bits cleared.
\<close>

fun is_power_of_two :: "nat \<Rightarrow> bool" where
  "is_power_of_two n =
     (if n \<le> 1 then n = 1 else even n \<and> is_power_of_two (n div 2))"

declare is_power_of_two.simps [simp del]

definition clear_low_bits :: "nat \<Rightarrow> 64 word \<Rightarrow> 64 word" where
  "clear_low_bits k x = x AND NOT (mask k)"

section \<open>BaseAligner.h: the score set\<close>

text \<open>
  Modelled from the spec: the enumerations \<open>AlignmentResult\<close> and \<open>Direction\<close> and
  the struct \<open>SingleAlignmentResult\<close> are declared in headers outside the sources at
  hand (AlignmentResult.h, directions.h). The specification gives a result's status as
  one of SingleHit and NotFound, its strand as forward or reverse complement, and lists
  its fields; the record below has the fields that the functions modelled here read or
  write.

  The type \<open>'d\<close> stands for C++ \<open>double\<close>. The functions of the score set only add,
  subtract and compare such values, so they are defined for any carrier that has these
  operations.
\<close>

datatype AlignmentResult = NotFound | SingleHit

datatype Direction = FORWARD | RC

record 'd SingleAlignmentResult =
  status :: AlignmentResult
  location :: GenomeLocation
  origLocation :: GenomeLocation
  direction :: Direction
  score :: int
  agScore :: int
  matchProbability :: 'd
  usedAffineGapScoring :: bool
  basesClippedBefore :: int
  basesClippedAfter :: int
  seedOffset :: int

text \<open>
  \<^verbatim>\<open>
  struct ScoreSet {
      int bestScore;
      GenomeLocation bestScoreGenomeLocation;
      GenomeLocation bestScoreOrigGenomeLocation; // location before scoring
      Direction bestScoreDirection;
      bool bestScoreUsedAffineGapScoring;
      int bestScoreBasesClippedBefore;
      int bestScoreBasesClippedAfter;
      int bestScoreAGScore;
      int bestScoreSeedOffset;
      double bestScoreMatchProbability;
      double probabilityOfAllCandidates;
      double probabilityOfBestCandidate;
      ...
  \<close>
\<close>

record 'd ScoreSet =
  bestScore :: int
  bestScoreGenomeLocation :: GenomeLocation
  bestScoreOrigGenomeLocation :: GenomeLocation
  bestScoreDirection :: Direction
  bestScoreUsedAffineGapScoring :: bool
  bestScoreBasesClippedBefore :: int
  bestScoreBasesClippedAfter :: int
  bestScoreAGScore :: int
  bestScoreSeedOffset :: int
  bestScoreMatchProbability :: 'd
  probabilityOfAllCandidates :: 'd
  probabilityOfBestCandidate :: 'd

text \<open>
  Modelled from the spec: the macro \<open>__max\<close> comes from a header outside the sources at
  hand (Compat.h, or the C runtime). The specification reads its use here as
  \<open>max(0, x)\<close>, a clamp at zero.
\<close>

definition max_macro :: "'a::ord \<Rightarrow> 'a \<Rightarrow> 'a" where
  "max_macro a b = max a b"

text \<open>
  \<^verbatim>\<open>
  inline void updateProbabilityOfAllMatches(double oldProbability) {
      probabilityOfAllCandidates = __max(0, probabilityOfAllCandidates - oldProbability);
  }
  inline void updateProbabilityOfBestMatch(double newProbability) {
      probabilityOfBestCandidate = newProbability;
      probabilityOfAllCandidates += newProbability;
  }
  \<close>
\<close>

definition updateProbabilityOfAllMatches ::
  "('d::{zero,minus,ord}) ScoreSet \<Rightarrow> 'd \<Rightarrow> 'd ScoreSet" where
  "updateProbabilityOfAllMatches s oldProbability =
     s\<lparr>probabilityOfAllCandidates :=
          max_macro 0 (probabilityOfAllCandidates s - oldProbability)\<rparr>"

definition updateProbabilityOfBestMatch ::
  "('d::plus) ScoreSet \<Rightarrow> 'd \<Rightarrow> 'd ScoreSet" where
  "updateProbabilityOfBestMatch s newProbability =
     s\<lparr>probabilityOfBestCandidate := newProbability,
       probabilityOfAllCandidates := probabilityOfAllCandidates s + newProbability\<rparr>"

text \<open>
  \<^verbatim>\<open>
  bool updateBestScore(SingleAlignmentResult* result) {
      probabilityOfAllCandidates += result->matchProbability;
      if (result->agScore > bestScoreAGScore ||
          (result->agScore == bestScoreAGScore && result->matchProbability > bestScoreMatchProbability)) {
          bestScore = result->score;
          bestScoreAGScore = result->agScore;
          bestScoreMatchProbability = result->matchProbability;
          bestScoreGenomeLocation = result->location;
          bestScoreOrigGenomeLocation = result->origLocation;
          bestScoreDirection = result->direction;
          bestScoreUsedAffineGapScoring = result->usedAffineGapScoring;
          bestScoreBasesClippedBefore = result->basesClippedBefore;
          bestScoreBasesClippedAfter = result->basesClippedAfter;
          bestScoreSeedOffset = result->seedOffset;
          return true;
      } else {
          return false;
      }
  }
  \<close>
  The method mutates the score set and returns a flag: the model returns the flag and
  the new score set.
\<close>

definition updateBestScore ::
  "('d::{plus,ord}) ScoreSet \<Rightarrow> 'd SingleAlignmentResult \<Rightarrow> bool \<times> 'd ScoreSet" where
  "updateBestScore s result =
     (let s1 = s\<lparr>probabilityOfAllCandidates :=
                    probabilityOfAllCandidates s + matchProbability result\<rparr>
      in if agScore result > bestScoreAGScore s1 \<or>
            (agScore result = bestScoreAGScore s1 \<and>
             matchProbability result > bestScoreMatchProbability s1)
         then (True,
               s1\<lparr>bestScore := score result,
                  bestScoreAGScore := agScore result,
                  bestScoreMatchProbability := matchProbability result,
                  bestScoreGenomeLocation := location result,
                  bestScoreOrigGenomeLocation := origLocation result,
                  bestScoreDirection := direction result,
                  bestScoreUsedAffineGapScoring := usedAffineGapScoring result,
                  bestScoreBasesClippedBefore := basesClippedBefore result,
                  bestScoreBasesClippedAfter := basesClippedAfter result,
                  bestScoreSeedOffset := seedOffset result\<rparr>)
         else (False, s1))"

text \<open>
  The vocabulary of the claims about the score set: the best-score fields hold the
  values of a result, and two score sets have the same best-score fields.
\<close>

definition holds_as_best :: "'d ScoreSet \<Rightarrow> 'd SingleAlignmentResult \<Rightarrow> bool" where
  "holds_as_best s result \<longleftrightarrow>
     bestScore s = score result \<and>
     bestScoreAGScore s = agScore result \<and>
     bestScoreMatchProbability s = matchProbability result \<and>
     bestScoreGenomeLocation s = location result \<and>
     bestScoreOrigGenomeLocation s = origLocation result \<and>
     bestScoreDirection s = direction result \<and>
     bestScoreUsedAffineGapScoring s = usedAffineGapScoring result \<and>
     bestScoreBasesClippedBefore s = basesClippedBefore result \<and>
     bestScoreBasesClippedAfter s = basesClippedAfter result \<and>
     bestScoreSeedOffset s = seedOffset result"

definition same_best :: "'d ScoreSet \<Rightarrow> 'd ScoreSet \<Rightarrow> bool" where
  "same_best s s' \<longleftrightarrow>
     bestScore s' = bestScore s \<and>
     bestScoreAGScore s' = bestScoreAGScore s \<and>
     bestScoreMatchProbability s' = bestScoreMatchProbability s \<and>
     bestScoreGenomeLocation s' = bestScoreGenomeLocation s \<and>
     bestScoreOrigGenomeLocation s' = bestScoreOrigGenomeLocation s \<and>
     bestScoreDirection s' = bestScoreDirection s \<and>
     bestScoreUsedAffineGapScoring s' = bestScoreUsedAffineGapScoring s \<and>
     bestScoreBasesClippedBefore s' = bestScoreBasesClippedBefore s \<and>
     bestScoreBasesClippedAfter s' = bestScoreBasesClippedAfter s \<and>
     bestScoreSeedOffset s' = bestScoreSeedOffset s"

section \<open>BaseAligner.h: the bitmap of used seeds\<close>

text \<open>
  \<^verbatim>\<open>
  BYTE *seedUsed;
  inline bool IsSeedUsed(unsigned indexInRead) const {
      return (seedUsed[indexInRead / 8] & (1 << (indexInRead % 8))) != 0;
  }
  inline void SetSeedUsed(unsigned indexInRead) {
      seedUsed[indexInRead / 8] |= (1 << (indexInRead % 8));
  }
  \<close>
  The bitmap is a list of bytes. An index whose byte lies outside the allocated bitmap
  is an out-of-bounds access in C++, undefined behaviour: both functions return \<open>None\<close>
  there. The shift count is below 8, so the mask fits a byte.
\<close>

definition IsSeedUsed :: "8 word list \<Rightarrow> nat \<Rightarrow> bool option" where
  "IsSeedUsed seedUsed indexInRead =
     (if indexInRead div 8 < length seedUsed
      then Some ((seedUsed ! (indexInRead div 8)) AND push_bit (indexInRead mod 8) 1 \<noteq> 0)
      else None)"

definition SetSeedUsed :: "8 word list \<Rightarrow> nat \<Rightarrow> 8 word list option" where
  "SetSeedUsed seedUsed indexInRead =
     (if indexInRead div 8 < length seedUsed
      then Some (seedUsed[indexInRead div 8 :=
                   (seedUsed ! (indexInRead div 8)) OR push_bit (indexInRead mod 8) 1])
      else None)"

text \<open>A sequence of \<open>SetSeedUsed\<close> calls, one after the other.\<close>

fun SetSeedUsed_all :: "8 word list \<Rightarrow> nat list \<Rightarrow> 8 word list option" where
  "SetSeedUsed_all seedUsed [] = Some seedUsed"
| "SetSeedUsed_all seedUsed (i # rest) =
     (case SetSeedUsed seedUsed i of
        None \<Rightarrow> None
      | Some seedUsed' \<Rightarrow> SetSeedUsed_all seedUsed' rest)"

section \<open>ReadWriter.cpp: the slow-progress check\<close>

text \<open>
  Modelled from the spec: the class \<open>Genome\<close> is declared outside the sources at hand
  (Genome.h). The specification gives what the writer consumes:
  \<open>getContigAtLocation(R)\<close>, which yields a contig with its \<open>beginningLocation\<close> and
  \<open>length\<close>, or nothing, and \<open>getChromosomePadding()\<close>. A \<open>const Contig *\<close> is an
  address: \<open>getContigAtLocation\<close> returns \<open>None\<close> for \<open>NULL\<close> and \<open>Some a\<close> for
  the address \<open>a\<close>, the function \<open>contigAt\<close> reads the contig stored there, and
  two pointers are equal when the addresses are. The field \<open>length\<close> of a contig is
  named \<open>length_c\<close>.
\<close>

record Contig =
  beginningLocation :: GenomeLocation
  length_c :: int

record Genome =
  getContigAtLocation :: "GenomeLocation \<Rightarrow> nat option"
  contigAt :: "nat \<Rightarrow> Contig"
  getChromosomePadding :: int

text \<open>
  The fields of \<open>SimpleReadWriter\<close> that the functions below use.
\<close>

record SimpleReadWriter =
  genome :: Genome
  killIfTooSlow :: bool
  lastTooSlowCheck :: int
  writesSinceLastTooSlowCheck :: int

text \<open>
  \<^verbatim>\<open>
  void SimpleReadWriter::checkIfTooSlow()
  {
      const _int64 tooSlowCheckPeriod = 5 * 60 * 1000;    // 5 min in ms
      const _int64 tooSlowCheckMinReadsPerCheckPeriod = 5 * 60 * 1000;
      if (killIfTooSlow) {
          _int64 now = timeInMillis();
          if (lastTooSlowCheck + tooSlowCheckPeriod <= now) {
              if (lastTooSlowCheck != 0 && writesSinceLastTooSlowCheck < tooSlowCheckMinReadsPerCheckPeriod) {
                  WriteErrorMessage(...);
                  soft_exit(1);
              }
              lastTooSlowCheck = now;
              writesSinceLastTooSlowCheck = 0;
          }
          writesSinceLastTooSlowCheck++;
      } // if (killIfTooSlow)
  }
  \<close>
  The clock reading \<open>timeInMillis()\<close> is the argument \<open>now\<close>. \<open>soft_exit\<close> ends the
  process: the call then has the outcome \<open>SoftExit\<close> with the exit code, otherwise it
  returns with the writer as it is after the call.
\<close>

datatype 'a outcome = SoftExit int | Returned 'a

definition tooSlowCheckPeriod :: int where
  "tooSlowCheckPeriod = 5 * 60 * 1000"

definition tooSlowCheckMinReadsPerCheckPeriod :: int where
  "tooSlowCheckMinReadsPerCheckPeriod = 5 * 60 * 1000"

definition checkIfTooSlow :: "SimpleReadWriter \<Rightarrow> int \<Rightarrow> SimpleReadWriter outcome" where
  "checkIfTooSlow w now =
     (if killIfTooSlow w then
        if lastTooSlowCheck w + tooSlowCheckPeriod \<le> now then
          if lastTooSlowCheck w \<noteq> 0 \<and>
             writesSinceLastTooSlowCheck w < tooSlowCheckMinReadsPerCheckPeriod
          then SoftExit 1
          else Returned (w\<lparr>lastTooSlowCheck := now, writesSinceLastTooSlowCheck := 0 + 1\<rparr>)
        else Returned (w\<lparr>writesSinceLastTooSlowCheck := writesSinceLastTooSlowCheck w + 1\<rparr>)
      else Returned w)"

section \<open>ReadWriter.cpp: adjusting a result that the formatter sent back\<close>

text \<open>
  In \<open>SimpleReadWriter::writeReads\<close> each result is formatted in a loop
  \<^verbatim>\<open>while (!format->writeRead(..., &addFrontClipping, ...)) { ... }\<close>
  whose body runs when the formatter returned false. The formatter and the class
  \<open>Read\<close> are outside the sources at hand: the formatter's answer is the argument
  \<open>addFrontClipping\<close> of the body, and the operations of \<open>Read\<close> that the body calls
  are taken as parameters, over any type \<open>'r\<close> of reads. \<open>InvalidGenomeLocation\<close> is
  a constant of Genome.h and a parameter as well.
\<close>

record 'r ReadOps =
  setAdditionalFrontClipping :: "int \<Rightarrow> 'r \<Rightarrow> 'r"
  setAdditionalBackClipping :: "int \<Rightarrow> 'r \<Rightarrow> 'r"
  getDataLength :: "'r \<Rightarrow> nat"

text \<open>
  The variables of the loop for one result: \<open>results[whichResult]\<close>,
  \<open>finalLocations[whichResult]\<close>, the read, \<open>cumulativeAddFrontClipping\<close>,
  \<open>nAdjustments\<close> and \<open>blewBuffer\<close>.
\<close>

record ('d, 'r) adjusting =
  result :: "'d SingleAlignmentResult"
  finalLocation :: GenomeLocation
  read :: 'r
  cumulativeAddFrontClipping :: int
  nAdjustments :: nat
  blewBuffer :: bool

text \<open>
  \<^verbatim>\<open>
  results[whichResult].status = NotFound;
  results[whichResult].location = InvalidGenomeLocation;
  results[whichResult].score = -1;
  results[whichResult].direction = FORWARD;
  finalLocations[whichResult] = InvalidGenomeLocation;
  \<close>
\<close>

definition give_up :: "GenomeLocation \<Rightarrow> ('d, 'r) adjusting \<Rightarrow> ('d, 'r) adjusting" where
  "give_up InvalidGenomeLocation st =
     st\<lparr>result := (result st)\<lparr>status := NotFound, location := InvalidGenomeLocation,
                              score := - 1, direction := FORWARD\<rparr>,
        finalLocation := InvalidGenomeLocation\<rparr>"

text \<open>
  \<^verbatim>\<open>
  const Genome::Contig *originalContig = results[whichResult].status == NotFound ? NULL
      : genome->getContigAtLocation(results[whichResult].location);
  const Genome::Contig *newContig = results[whichResult].status == NotFound ? NULL
      : genome->getContigAtLocation(results[whichResult].location + addFrontClipping);
  \<close>
\<close>

definition originalContig ::
  "Genome \<Rightarrow> 'd SingleAlignmentResult \<Rightarrow> nat option" where
  "originalContig g r =
     (if status r = NotFound then None else getContigAtLocation g (location r))"

definition newContig ::
  "Genome \<Rightarrow> 'd SingleAlignmentResult \<Rightarrow> int \<Rightarrow> nat option" where
  "newContig g r addFrontClipping =
     (if status r = NotFound then None
      else getContigAtLocation g (location r + addFrontClipping))"

text \<open>
  The affine-gap path (taken when
  \<open>useAffineGap && (usedAffineGapScoring || score > 0)\<close>):
  \<^verbatim>\<open>
  nAdjustments++;
  if (0 == addFrontClipping) {
      blewBuffer = true;
      break;
  }
  ...
  if (newContig == NULL || newContig != originalContig ||
      finalLocations[whichResult] + addFrontClipping >
          newContig->beginningLocation + newContig->length - genome->getChromosomePadding() ||
      nAdjustments > read->getDataLength()) {
      (give up)
  } else {
      if (addFrontClipping < 0) { // Insertion (soft-clip)
          cumulativeAddFrontClipping += addFrontClipping;
          if (results[whichResult].direction == FORWARD) {
              read->setAdditionalFrontClipping(-cumulativeAddFrontClipping);
          } else {
              read->setAdditionalBackClipping(-cumulativeAddFrontClipping);
          }
      } else { // Deletion
          finalLocations[whichResult] = results[whichResult].location + addFrontClipping;
      }
  }
  \<close>
  The operator \<open>||\<close> evaluates left to right and stops at the first true operand, so
  \<open>newContig\<close> is dereferenced only when it is not \<open>NULL\<close>.
\<close>

definition uses_affineGap_path :: "bool \<Rightarrow> 'd SingleAlignmentResult \<Rightarrow> bool" where
  "uses_affineGap_path useAffineGap r \<longleftrightarrow>
     useAffineGap \<and> (usedAffineGapScoring r \<or> score r > 0)"

definition adjust_affineGap ::
  "Genome \<Rightarrow> 'r ReadOps \<Rightarrow> GenomeLocation \<Rightarrow> int \<Rightarrow> ('d, 'r) adjusting \<Rightarrow> ('d, 'r) adjusting" where
  "adjust_affineGap g ops InvalidGenomeLocation addFrontClipping st0 =
     (let st = st0\<lparr>nAdjustments := nAdjustments st0 + 1\<rparr> in
      if 0 = addFrontClipping then st\<lparr>blewBuffer := True\<rparr>
      else
        let r = result st;
            oc = originalContig g r;
            nc = newContig g r addFrontClipping
        in if (case nc of
                 None \<Rightarrow> True
               | Some c \<Rightarrow>
                   nc \<noteq> oc \<or>
                   finalLocation st + addFrontClipping >
                     beginningLocation (contigAt g c) + length_c (contigAt g c)
                       - getChromosomePadding g \<or>
                   nAdjustments st > getDataLength ops (read st))
           then give_up InvalidGenomeLocation st
           else if addFrontClipping < 0 then
             (let cum = cumulativeAddFrontClipping st + addFrontClipping in
              st\<lparr>cumulativeAddFrontClipping := cum,
                 read := (if direction r = FORWARD
                          then setAdditionalFrontClipping ops (- cum) (read st)
                          else setAdditionalBackClipping ops (- cum) (read st))\<rparr>)
           else st\<lparr>finalLocation := location r + addFrontClipping\<rparr>)"

text \<open>
  The edit-distance path:
  \<^verbatim>\<open>
  nAdjustments++;
  if (0 == addFrontClipping) {
      blewBuffer = true;
      break;
  }
  ...
  if (newContig == NULL || newContig != originalContig ||
      finalLocations[whichResult] + addFrontClipping >
          originalContig->beginningLocation + originalContig->length - genome->getChromosomePadding() ||
      nAdjustments > read->getDataLength()) {
      (give up)
  } else {
      if (addFrontClipping > 0) {
          cumulativeAddFrontClipping += addFrontClipping;
          read->setAdditionalFrontClipping(cumulativeAddFrontClipping);
      }
      finalLocations[whichResult] += addFrontClipping;
  }
  \<close>
  Here the third operand dereferences \<open>originalContig\<close>. It is evaluated only when the
  first two operands are false, that is when \<open>originalContig\<close> equals \<open>newContig\<close>
  and is not \<open>NULL\<close>; the branch for \<open>NULL\<close> below is never reached.
\<close>

definition adjust_editDistance ::
  "Genome \<Rightarrow> 'r ReadOps \<Rightarrow> GenomeLocation \<Rightarrow> int \<Rightarrow> ('d, 'r) adjusting \<Rightarrow> ('d, 'r) adjusting" where
  "adjust_editDistance g ops InvalidGenomeLocation addFrontClipping st0 =
     (let st = st0\<lparr>nAdjustments := nAdjustments st0 + 1\<rparr> in
      if 0 = addFrontClipping then st\<lparr>blewBuffer := True\<rparr>
      else
        let r = result st;
            oc = originalContig g r;
            nc = newContig g r addFrontClipping
        in if (case nc of
                 None \<Rightarrow> True
               | Some c \<Rightarrow>
                   nc \<noteq> oc \<or>
                   (case oc of
                      None \<Rightarrow> True
                    | Some c' \<Rightarrow>
                        finalLocation st + addFrontClipping >
                          beginningLocation (contigAt g c') + length_c (contigAt g c')
                            - getChromosomePadding g) \<or>
                   nAdjustments st > getDataLength ops (read st))
           then give_up InvalidGenomeLocation st
           else
             (let st1 = (if addFrontClipping > 0 then
                           (let cum = cumulativeAddFrontClipping st + addFrontClipping in
                            st\<lparr>cumulativeAddFrontClipping := cum,
                               read := setAdditionalFrontClipping ops cum (read st)\<rparr>)
                         else st)
              in st1\<lparr>finalLocation := finalLocation st1 + addFrontClipping\<rparr>))"

text \<open>
  The whole loop for one result. The formatter is the parameter \<open>writeRead\<close>: from the
  result, the location to write and the read it answers \<open>None\<close> when it returned true
  and \<open>Some addFrontClipping\<close> when it returned false. The path is chosen once, before
  the loop. Nothing bounds the number of rounds an arbitrary formatter asks for, so the
  loop carries fuel and yields \<open>None\<close> when it runs out.
\<close>

fun format_result ::
  "nat \<Rightarrow> ('d SingleAlignmentResult \<Rightarrow> GenomeLocation \<Rightarrow> 'r \<Rightarrow> int option) \<Rightarrow> bool \<Rightarrow>
   Genome \<Rightarrow> 'r ReadOps \<Rightarrow> GenomeLocation \<Rightarrow> ('d, 'r) adjusting \<Rightarrow> ('d, 'r) adjusting option" where
  "format_result 0 writeRead affineGapPath g ops InvalidGenomeLocation st = None"
| "format_result (Suc fuel) writeRead affineGapPath g ops InvalidGenomeLocation st =
     (case writeRead (result st) (finalLocation st) (read st) of
        None \<Rightarrow> Some st
      | Some addFrontClipping \<Rightarrow>
          (let st' = (if affineGapPath
                      then adjust_affineGap g ops InvalidGenomeLocation addFrontClipping st
                      else adjust_editDistance g ops InvalidGenomeLocation addFrontClipping st)
           in if blewBuffer st' then Some st'
              else format_result fuel writeRead affineGapPath g ops InvalidGenomeLocation st'))"

text \<open>
  The vocabulary of the claim: an adjustment by \<open>addFrontClipping\<close> crosses a contig
  boundary when the contig at the adjusted location is null, or differs from the contig
  at the original location, or the adjusted location to write lies past the contig's
  end minus the chromosome padding; and a candidate is dropped when its result and its
  location to write have the values of the give-up branch.
\<close>

definition crosses_contig_boundary ::
  "Genome \<Rightarrow> GenomeLocation \<Rightarrow> GenomeLocation \<Rightarrow> int \<Rightarrow> bool" where
  "crosses_contig_boundary g loc finalLoc addFrontClipping \<longleftrightarrow>
     (case getContigAtLocation g (loc + addFrontClipping) of
        None \<Rightarrow> True
      | Some c \<Rightarrow>
          getContigAtLocation g loc \<noteq> Some c \<or>
          finalLoc + addFrontClipping >
            beginningLocation (contigAt g c) + length_c (contigAt g c) - getChromosomePadding g)"

definition dropped :: "GenomeLocation \<Rightarrow> ('d, 'r) adjusting \<Rightarrow> bool" where
  "dropped InvalidGenomeLocation st \<longleftrightarrow>
     status (result st) = NotFound \<and>
     location (result st) = InvalidGenomeLocation \<and>
     score (result st) = - 1 \<and>
     direction (result st) = FORWARD \<and>
     finalLocation st = InvalidGenomeLocation"

section \<open>FASTA.cpp: reading the reference\<close>

text \<open>
  A line buffer is a C string. The bytes that \<open>reallocatingFgets\<close> (Util.cpp,
  outside the sources at hand) left in \<open>lineBuffer\<close> are a list of characters; what
  \<open>strchr\<close> and \<open>strlen\<close> see of them ends before the first NUL. Storing a NUL at
  the first occurrence of a character, as in
  \<^verbatim>\<open>
  char *newline = strchr(lineBuffer, '\n');
  if (NULL != newline) {
      *newline = 0;
  }
  \<close>
  leaves the part of the string before that occurrence, or all of it when the character
  does not occur.
\<close>

definition cstring :: "string \<Rightarrow> string" where
  "cstring bytes = takeWhile (\<lambda>c. c \<noteq> CHR 0x00) bytes"

definition truncate_at :: "char \<Rightarrow> string \<Rightarrow> string" where
  "truncate_at terminator s = takeWhile (\<lambda>c. c \<noteq> terminator) s"

text \<open>
  \<open>toupper\<close> is the C library's, in the C locale: the letters \<open>a\<close> to \<open>z\<close>
  (codes 97 to 122) go to \<open>A\<close> to \<open>Z\<close>, every other character to itself.
\<close>

definition toupper :: "char \<Rightarrow> char" where
  "toupper c =
     (if 97 \<le> (of_char c :: nat) \<and> (of_char c :: nat) \<le> 122
      then char_of ((of_char c :: nat) - 32) else c)"

text \<open>
  \<^verbatim>\<open>
  for (int i = 0; i < 256; i++) {
      isValidGenomeCharacter[i] = false;
  }
  isValidGenomeCharacter['A'] = isValidGenomeCharacter['T'] = isValidGenomeCharacter['C'] =
      isValidGenomeCharacter['G'] = isValidGenomeCharacter['N'] = true;
  isValidGenomeCharacter['a'] = isValidGenomeCharacter['t'] = isValidGenomeCharacter['c'] =
      isValidGenomeCharacter['g'] = isValidGenomeCharacter['n'] = true;
  \<close>
\<close>

definition isValidGenomeCharacter :: "char \<Rightarrow> bool" where
  "isValidGenomeCharacter c \<longleftrightarrow> c \<in> set ''ATCGNatcgn''"

text \<open>
  \<^verbatim>\<open>
  char *paddingBuffer = new char[chromosomePaddingSize+1];
  for (unsigned i = 0; i < chromosomePaddingSize; i++) {
      paddingBuffer[i] = 'n';
  }
  paddingBuffer[chromosomePaddingSize] = '\0';
  \<close>
\<close>

definition paddingBuffer :: "nat \<Rightarrow> string" where
  "paddingBuffer chromosomePaddingSize = replicate chromosomePaddingSize (CHR ''n'')"

text \<open>
  The arguments of \<open>ReadFASTAGenome\<close> that shape the genome. The lists of ALT names
  and the size cutoff are only handed on to \<open>MarkALTContigIfAppropriate\<close>.
  \<open>pieceNameTerminatorCharacters\<close> may be \<open>NULL\<close>.
\<close>

record fasta_args =
  pieceNameTerminatorCharacters :: "string option"
  spaceIsAPieceNameTerminator :: bool
  chromosomePaddingSize :: nat

text \<open>
  The genome under construction is seen through the calls made on it, in order.
  \<open>MarkALT name size\<close> is the call of \<open>MarkALTContigIfAppropriate\<close> for the contig
  that just ended; it adds no data.
\<close>

datatype genome_call =
    AddData string
  | StartContig string
  | MarkALT string nat
  | FillInContigLengths
  | SortContigsByName

datatype fasta_error = UnableToOpen | NoContigName | EmptyFile

text \<open>
  The variables of the reading loop: \<open>warningIssued\<close>, \<open>inAContig\<close>,
  \<open>contigLength\<close>, \<open>lastContigName\<close>, and the calls made so far.
\<close>

record fasta_state =
  warningIssued :: bool
  inAContig :: bool
  contigLength :: nat
  lastContigName :: string
  calls :: "genome_call list"

text \<open>
  The name of a contig, from the header line after its \<open>>\<close>:
  \<^verbatim>\<open>
  if (NULL != pieceNameTerminatorCharacters) {
      for (int i = 0; i < strlen(pieceNameTerminatorCharacters); i++) {
          char *terminator = strchr(lineBuffer+1, pieceNameTerminatorCharacters[i]);
          if (NULL != terminator) {
              *terminator = '\0';
          }
      }
  }
  if (spaceIsAPieceNameTerminator) {
      char *terminator = strchr(lineBuffer, ' ');
      if (NULL != terminator) {
          *terminator = '\0';
      }
      terminator = strchr(lineBuffer, '\t');
      if (NULL != terminator) {
          *terminator = '\0';
      }
  }
  char *terminator = strchr(lineBuffer, '\n');
  if (NULL != terminator) {
      *terminator = '\0';
  }
  terminator = strchr(lineBuffer, '\r');
  if (NULL != terminator) {
      *terminator = '\0';
  }
  genome->startContig(lineBuffer+1);
  \<close>
  The searches that start at \<open>lineBuffer\<close> pass over its first character \<open>>\<close>,
  which is none of the characters searched for, so they cut the rest of the line.
\<close>

definition contig_name :: "fasta_args \<Rightarrow> string \<Rightarrow> string" where
  "contig_name args rest =
     (let r1 = (case pieceNameTerminatorCharacters args of
                  None \<Rightarrow> rest
                | Some terminators \<Rightarrow> fold truncate_at (cstring terminators) rest);
          r2 = (if spaceIsAPieceNameTerminator args
                then truncate_at (CHR 0x09) (truncate_at (CHR '' '') r1)
                else r1)
      in truncate_at (CHR 0x0D) (truncate_at (CHR 0x0A) r2))"

text \<open>
  What a data line hands to \<open>addData\<close>:
  \<^verbatim>\<open>
  char *newline = strchr(lineBuffer, '\n');
  if (NULL != newline) {
      *newline = 0;
  }
  size_t lineLen = strlen(lineBuffer);
  for (unsigned i = 0; i < lineLen; i++) {
    lineBuffer[i] = toupper(lineBuffer[i]);
  }
  contigLength += lineLen;
  for (unsigned i = 0; i < lineLen; i++) {
      if (!isValidGenomeCharacter[(unsigned char)lineBuffer[i]]) {
          if (!warningIssued) {
              WriteErrorMessage(...);
              warningIssued = true;
          }
          lineBuffer[i] = 'N';
      }
  }
  genome->addData(lineBuffer);
  \<close>
\<close>

definition upper_cased :: "string \<Rightarrow> string" where
  "upper_cased lineBuffer = map toupper (truncate_at (CHR 0x0A) lineBuffer)"

definition data_for_genome :: "string \<Rightarrow> string" where
  "data_for_genome lineBuffer =
     map (\<lambda>c. if \<not> isValidGenomeCharacter c then CHR ''N'' else c) (upper_cased lineBuffer)"

text \<open>
  The second loop over the file, \<^verbatim>\<open>while (NULL != reallocatingFgets(...))\<close>, with
  the lines of the file as a list. A line is a header when its first character is
  \<open>>\<close>. A data line before any header ends the process (\<open>soft_exit(1)\<close>).
\<close>

fun read_lines :: "fasta_args \<Rightarrow> string list \<Rightarrow> fasta_state \<Rightarrow> fasta_error + fasta_state" where
  "read_lines args [] st = Inr st"
| "read_lines args (bytes # rest) st =
     (let lineBuffer = cstring bytes in
      if take 1 lineBuffer = ''>'' then
        (let st1 = (if inAContig st
                    then st\<lparr>calls := calls st @ [MarkALT (lastContigName st) (contigLength st)]\<rparr>
                    else st);
             name = contig_name args (drop 1 lineBuffer)
         in read_lines args rest
              (st1\<lparr>inAContig := True, contigLength := 0,
                  calls := calls st1 @
                    [AddData (paddingBuffer (chromosomePaddingSize args)), StartContig name],
                  lastContigName := name\<rparr>))
      else if \<not> inAContig st then Inl NoContigName
      else
        read_lines args rest
          (st\<lparr>contigLength := contigLength st + length (upper_cased lineBuffer),
              warningIssued :=
                (warningIssued st \<or> (\<exists>c \<in> set (upper_cased lineBuffer). \<not> isValidGenomeCharacter c)),
              calls := calls st @ [AddData (data_for_genome lineBuffer)]\<rparr>))"

text \<open>
  \<open>ReadFASTAGenome\<close>: the file is \<open>None\<close> when \<open>fopen\<close> fails, otherwise its lines.
  The first loop over the file only counts the headers to size the genome's buffers.
  After the lines the function marks the last contig, adds the final padding and asks
  the genome to fill in the contig lengths and sort the contigs by name. The result is
  the sequence of calls that built the returned genome, or the reason for returning
  \<open>NULL\<close> or exiting.
\<close>

definition ReadFASTAGenome ::
  "fasta_args \<Rightarrow> string list option \<Rightarrow> fasta_error + genome_call list" where
  "ReadFASTAGenome args file =
     (case file of
        None \<Rightarrow> Inl UnableToOpen
      | Some lines \<Rightarrow>
          (case read_lines args lines
                  \<lparr>warningIssued = False, inAContig = False, contigLength = 0,
                   lastContigName = [], calls = []\<rparr> of
             Inl e \<Rightarrow> Inl e
           | Inr st \<Rightarrow>
               if \<not> inAContig st then Inl EmptyFile
               else Inr (calls st @
                          [MarkALT (lastContigName st) (contigLength st),
                           AddData (paddingBuffer (chromosomePaddingSize args)),
                           FillInContigLengths, SortContigsByName])))"

text \<open>
  Modelled from the spec: \<open>Genome::addData\<close> is defined outside the sources at hand
  (Genome.cpp). The genome is the concatenated padded reference, so each call appends
  its argument to the bases; the body of the genome is the concatenation of the
  arguments of the \<open>addData\<close> calls, in order.
\<close>

fun added_data :: "genome_call list \<Rightarrow> string list" where
  "added_data [] = []"
| "added_data (AddData d # cs) = d # added_data cs"
| "added_data (c # cs) = added_data cs"

definition genome_body :: "genome_call list \<Rightarrow> string" where
  "genome_body cs = concat (added_data cs)"

text \<open>
  The vocabulary of the claim about the data lines: the bases, a line upper-cased with
  every character that is then not a base replaced by \<open>N\<close>, and what each line of the
  file contributes to the genome: the padding for a header, the cleaned line for a data
  line.
\<close>

definition is_base :: "char \<Rightarrow> bool" where
  "is_base c \<longleftrightarrow> c \<in> set ''ACGTN''"

definition upper_case_and_replace :: "string \<Rightarrow> string" where
  "upper_case_and_replace s = map (\<lambda>c. if is_base (toupper c) then toupper c else CHR ''N'') s"

definition is_header :: "string \<Rightarrow> bool" where
  "is_header bytes \<longleftrightarrow> take 1 (cstring bytes) = ''>''"

definition contribution :: "nat \<Rightarrow> string \<Rightarrow> string" where
  "contribution padding bytes =
     (if is_header bytes then paddingBuffer padding
      else upper_case_and_replace (truncate_at (CHR 0x0A) (cstring bytes)))"

section \<open>Concrete inputs\<close>

text \<open>
  A score set whose best candidate has affine-gap score 90 and match probability 1/4,
  and two results: one that beats it on the affine-gap score, one that ties on the score
  and loses on the probability. Probabilities are real numbers here.
\<close>

definition example_scores :: "real ScoreSet" where
  "example_scores =
     \<lparr>bestScore = 3, bestScoreGenomeLocation = 1000, bestScoreOrigGenomeLocation = 1002,
      bestScoreDirection = FORWARD, bestScoreUsedAffineGapScoring = True,
      bestScoreBasesClippedBefore = 0, bestScoreBasesClippedAfter = 2,
      bestScoreAGScore = 90, bestScoreSeedOffset = 4,
      bestScoreMatchProbability = 1 / 4,
      probabilityOfAllCandidates = 1 / 2, probabilityOfBestCandidate = 1 / 4\<rparr>"

definition example_better :: "real SingleAlignmentResult" where
  "example_better =
     \<lparr>status = SingleHit, location = 7500, origLocation = 7501, direction = RC,
      score = 1, agScore = 95, matchProbability = 1 / 8, usedAffineGapScoring = True,
      basesClippedBefore = 1, basesClippedAfter = 0, seedOffset = 20\<rparr>"

definition example_worse :: "real SingleAlignmentResult" where
  "example_worse =
     \<lparr>status = SingleHit, location = 7500, origLocation = 7501, direction = RC,
      score = 1, agScore = 90, matchProbability = 1 / 8, usedAffineGapScoring = True,
      basesClippedBefore = 1, basesClippedAfter = 0, seedOffset = 20\<rparr>"

text \<open>
  A writer that checks for slow progress, last checked at time 1000 with 10 writes
  since.
\<close>

definition example_genome :: Genome where
  "example_genome =
     \<lparr>getContigAtLocation =
        (\<lambda>l. if 500 \<le> l \<and> l < 6000 then Some 0
             else if 6000 \<le> l \<and> l < 9000 then Some 1 else None),
      contigAt =
        (\<lambda>a. if a = 0 then \<lparr>beginningLocation = 500, length_c = 5500\<rparr>
             else \<lparr>beginningLocation = 6000, length_c = 3000\<rparr>),
      getChromosomePadding = 500\<rparr>"

definition example_writer :: SimpleReadWriter where
  "example_writer =
     \<lparr>genome = example_genome, killIfTooSlow = True, lastTooSlowCheck = 1000,
      writesSinceLastTooSlowCheck = 10\<rparr>"

text \<open>
  A read reduced to its two clipping amounts and a length of 100 bases, and the loop
  variables for a result at location 5990 of the first contig of \<open>example_genome\<close>,
  which ends at 6000; the location 6010 is in the second contig.
\<close>

definition example_read_ops :: "(int \<times> int) ReadOps" where
  "example_read_ops =
     \<lparr>setAdditionalFrontClipping = (\<lambda>n r. (n, snd r)),
      setAdditionalBackClipping = (\<lambda>n r. (fst r, n)),
      getDataLength = (\<lambda>r. 100)\<rparr>"

definition example_adjusting :: "(real, int \<times> int) adjusting" where
  "example_adjusting =
     \<lparr>result = example_better\<lparr>location := 5990\<rparr>, finalLocation = 5990, read = (0, 0),
      cumulativeAddFrontClipping = 0, nAdjustments = 0, blewBuffer = False\<rparr>"

text \<open>
  A FASTA file of two contigs with lower-case bases, ambiguity codes, a gap character
  and a carriage return in its data lines.
\<close>

definition example_fasta_args :: fasta_args where
  "example_fasta_args =
     \<lparr>pieceNameTerminatorCharacters = Some ''|'', spaceIsAPieceNameTerminator = True,
      chromosomePaddingSize = 3\<rparr>"

definition example_fasta :: "string list" where
  "example_fasta =
     [''>chr1 desc'' @ [CHR 0x0A], ''acgtRyn-'' @ [CHR 0x0D, CHR 0x0A],
      ''>chr2|x'' @ [CHR 0x0A], ''GGxa'']"

section \<open>Properties of the constants and of the decomposition\<close>

lemma is_power_of_two_power: "is_power_of_two (2 ^ k)"
proof (induction k)
  case 0
  show ?case by (simp add: is_power_of_two.simps [of "Suc 0"])
next
  case (Suc k)
  have "(1::nat) \<le> 2 ^ k" by simp
  moreover have "(2::nat) ^ Suc k = 2 * 2 ^ k" by simp
  ultimately have "\<not> (2::nat) ^ Suc k \<le> 1" by linarith
  then have "is_power_of_two (2 ^ Suc k) = is_power_of_two (2 ^ Suc k div 2)"
    by (subst is_power_of_two.simps) simp
  with Suc show ?case by simp
qed

lemma is_power_of_two_imp: "is_power_of_two n \<Longrightarrow> \<exists>k. n = 2 ^ k"
proof (induction n rule: is_power_of_two.induct)
  case (1 n)
  show ?case
  proof (cases "n \<le> 1")
    case True
    with "1.prems" have "n = 2 ^ 0" by (simp add: is_power_of_two.simps [of n])
    then show ?thesis by blast
  next
    case False
    with "1.prems" have ev: "even n" and half: "is_power_of_two (n div 2)"
      by (simp_all add: is_power_of_two.simps [of n])
    from "1.IH" [OF False half] obtain k where k: "n div 2 = 2 ^ k" by blast
    from ev k have "n = 2 ^ Suc k" by auto
    then show ?thesis by blast
  qed
qed

lemma is_power_of_two_iff: "is_power_of_two n \<longleftrightarrow> (\<exists>k. n = 2 ^ k)"
  using is_power_of_two_imp is_power_of_two_power by blast

lemma ucast_hashTableElementSize:
  "(ucast (hashTableElementSize l) :: 64 word) = (if l then 64 else 48)"
  by (simp add: hashTableElementSize_def maxMergeDist_def)

lemma unat_hashTableElementSize:
  "unat (hashTableElementSize l) = (if l then 64 else 48)"
  by (simp add: hashTableElementSize_def maxMergeDist_def)

text \<open>
  C7. For every 64-bit key, \<open>hash key\<close> is the key multiplied by the odd constant 131
  and reduced modulo \<open>2 ^ 64\<close>; nothing else is done to it.
\<close>

theorem hash_is_multiplication_by_131:
  "hash key = key * 131 \<and> unat (hash key) = (unat key * 131) mod 2 ^ 64 \<and> odd (131 :: nat)"
  by (simp add: hash_def unat_word_ariths)

lemma word_mod_le_self: "(w :: 64 word) mod d \<le> w"
  by (simp add: word_le_def uint_mod_distrib zmod_le_nonneg_dividend)

lemma lowOrder_of_eq:
  "lowOrder_of l R = (word_of_int R :: 64 word) mod ucast (hashTableElementSize l)"
  by (simp add: lowOrder_of_def decomposeGenomeLocation_def Let_def)

lemma highOrder_of_eq:
  "highOrder_of l R = (word_of_int R :: 64 word) - lowOrder_of l R"
  by (simp add: lowOrder_of_def highOrder_of_def decomposeGenomeLocation_def Let_def)

lemma uint_cast_location: "uint (word_of_int R :: 64 word) = R mod 2 ^ 64"
  by (simp add: uint_word_of_int take_bit_eq_mod)

lemma uint_lowOrder_of:
  "uint (lowOrder_of l R) = (R mod 2 ^ 64) mod uint (hashTableElementSize l)"
  by (simp add: lowOrder_of_eq uint_mod_distrib uint_cast_location
      hashTableElementSize_def maxMergeDist_def)

lemma uint_highOrder_of:
  "uint (highOrder_of l R) = R mod 2 ^ 64 - uint (lowOrder_of l R)"
proof -
  let ?w = "word_of_int R :: 64 word"
  let ?d = "ucast (hashTableElementSize l) :: 64 word"
  have "uint (?w mod ?d) \<le> uint ?w"
    using word_mod_le_self [of ?w ?d] by (simp add: word_le_def)
  then have "uint (?w - ?w mod ?d) = uint ?w - uint (?w mod ?d)"
    by (simp add: uint_sub_lem [symmetric])
  then show ?thesis
    by (simp add: highOrder_of_eq lowOrder_of_eq uint_cast_location)
qed

lemma uint_lowOrder_of_less:
  "uint (lowOrder_of l R) < uint (hashTableElementSize l)"
  by (simp add: uint_lowOrder_of hashTableElementSize_def maxMergeDist_def)

lemma clear_low_six_bits: "(x :: 64 word) - x mod 64 = x AND NOT (mask 6)"
proof -
  have m: "x mod 64 = take_bit 6 x"
    by (simp add: take_bit_eq_mod)
  have "push_bit 6 (drop_bit 6 x) + take_bit 6 x = x"
    by (rule bits_ident)
  then have "x - take_bit 6 x = push_bit 6 (drop_bit 6 x)"
    by (simp add: algebra_simps)
  also have "\<dots> = x AND NOT (mask 6)"
    by (auto simp: bit_eq_iff bit_simps)
  finally show ?thesis using m by simp
qed

text \<open>
  For a location in the unsigned 64-bit range the cast changes nothing, and the
  decomposition is the one of the integers.
\<close>

lemma decomposeGenomeLocation_in_range:
  assumes "0 \<le> R" and "R < 2 ^ 64"
  shows "uint (lowOrder_of l R) = R mod uint (hashTableElementSize l)"
    and "uint (highOrder_of l R) = R - R mod uint (hashTableElementSize l)"
  using assms by (simp_all add: uint_highOrder_of uint_lowOrder_of)

text \<open>
  C4. For every genome location \<open>R\<close>, read as the unsigned 64-bit value the code casts
  it to, a call of \<open>decomposeGenomeLocation\<close> with both out-pointers stores
  \<open>lowOrder = R mod W\<close> and \<open>highOrder = R - lowOrder\<close>, where \<open>W\<close> is
  \<open>hashTableElementSize\<close>. Hence \<open>highOrder + lowOrder = R\<close>, without wrap-around,
  and \<open>0 \<le> lowOrder < W\<close>.
\<close>

theorem decomposeGenomeLocation_law:
  "decomposeGenomeLocation l R True = (Some (highOrder_of l R), lowOrder_of l R) \<and>
   lowOrder_of l R = word_of_int R mod ucast (hashTableElementSize l) \<and>
   highOrder_of l R = word_of_int R - lowOrder_of l R \<and>
   highOrder_of l R + lowOrder_of l R = word_of_int R \<and>
   uint (lowOrder_of l R) = (R mod 2 ^ 64) mod uint (hashTableElementSize l) \<and>
   uint (highOrder_of l R) = R mod 2 ^ 64 - uint (lowOrder_of l R) \<and>
   uint (highOrder_of l R) + uint (lowOrder_of l R) = R mod 2 ^ 64 \<and>
   0 \<le> uint (lowOrder_of l R) \<and>
   uint (lowOrder_of l R) < uint (hashTableElementSize l)"
proof -
  have a: "decomposeGenomeLocation l R True = (Some (highOrder_of l R), lowOrder_of l R)"
    by (simp add: lowOrder_of_def highOrder_of_def decomposeGenomeLocation_def Let_def)
  have b: "highOrder_of l R + lowOrder_of l R = word_of_int R"
    by (simp add: highOrder_of_eq)
  have c: "uint (highOrder_of l R) + uint (lowOrder_of l R) = R mod 2 ^ 64"
    by (simp add: uint_highOrder_of)
  have d: "0 \<le> uint (lowOrder_of l R)"
    by simp
  from a b c d lowOrder_of_eq [of l R] highOrder_of_eq [of l R] uint_lowOrder_of [of l R]
    uint_highOrder_of [of l R] uint_lowOrder_of_less [of l R]
  show ?thesis by blast
qed

text \<open>
  C3, as the code has it. The window size \<open>W\<close> (\<open>hashTableElementSize\<close>, which is
  \<open>maxMergeDist\<close>) is 48 for short reads and 64 for long reads; it is even and at most
  64. It is a power of two exactly in the long-read build. An element's base location
  is the candidate's location minus its remainder modulo \<open>W\<close>, a multiple of \<open>W\<close>;
  in the long-read build this is the location with its low 6 bits cleared.
\<close>

theorem window_size_and_base_location:
  "unat (maxMergeDist False) = 48 \<and> unat (maxMergeDist True) = 64 \<and>
   hashTableElementSize l = maxMergeDist l \<and>
   even (unat (hashTableElementSize l)) \<and>
   unat (hashTableElementSize l) \<le> 64 \<and>
   is_power_of_two (unat (hashTableElementSize l)) = l \<and>
   highOrder_of l R = word_of_int R - word_of_int R mod ucast (hashTableElementSize l) \<and>
   uint (highOrder_of l R) mod uint (hashTableElementSize l) = 0 \<and>
   highOrder_of True R = clear_low_bits 6 (word_of_int R)"
proof -
  have p48: "\<not> is_power_of_two 48" by code_simp
  have p64: "is_power_of_two 64" by code_simp
  have pw: "is_power_of_two (unat (hashTableElementSize l)) = l"
    using p48 p64 by (simp add: unat_hashTableElementSize)
  have mult: "uint (highOrder_of l R) mod uint (hashTableElementSize l) = 0"
    by (simp add: uint_highOrder_of uint_lowOrder_of minus_mod_eq_mult_div)
  have clr: "highOrder_of True R = clear_low_bits 6 (word_of_int R)"
    using clear_low_six_bits [of "word_of_int R"]
    by (simp add: highOrder_of_eq lowOrder_of_eq clear_low_bits_def ucast_hashTableElementSize)
  have "highOrder_of l R = word_of_int R - word_of_int R mod ucast (hashTableElementSize l)"
    by (simp add: highOrder_of_eq lowOrder_of_eq)
  with pw mult clr show ?thesis
    by (simp add: unat_hashTableElementSize hashTableElementSize_def maxMergeDist_def)
qed

text \<open>
  C3 as stated fails in the short-read build: 48 is not a power of two, and the base
  location of location 48 is 48 itself, which is neither 48 with its low 5 bits cleared
  (32) nor 48 with its low 6 bits cleared (0).
\<close>

theorem window_size_short_reads_counterexample:
  "\<not> is_power_of_two (unat (hashTableElementSize False)) \<and>
   highOrder_of False 48 \<noteq> clear_low_bits 5 (word_of_int 48) \<and>
   highOrder_of False 48 \<noteq> clear_low_bits 6 (word_of_int 48)"
proof -
  have "\<not> is_power_of_two 48" by code_simp
  moreover have "highOrder_of False 48 = 48"
    by (simp add: highOrder_of_eq lowOrder_of_eq ucast_hashTableElementSize)
  moreover have "clear_low_bits 5 (48 :: 64 word) = 32" by code_simp
  moreover have "clear_low_bits 6 (48 :: 64 word) = 0" by code_simp
  ultimately show ?thesis
    by (simp add: unat_hashTableElementSize)
qed

section \<open>Properties of the score set\<close>

text \<open>
  C2. For every score set and every result, \<open>updateBestScore\<close> adds the result's
  match probability to \<open>probabilityOfAllCandidates\<close>. It returns true exactly when the
  pair (agScore, matchProbability) of the result is lexicographically strictly greater
  than the pair (bestScoreAGScore, bestScoreMatchProbability) of the score set; when it
  returns true the ten best-score fields hold the result's values, and when it returns
  false they are the ones from before the call.
\<close>

theorem updateBestScore_installs_iff_better:
  fixes s :: "('d::{plus,ord}) ScoreSet"
  shows
    "probabilityOfAllCandidates (snd (updateBestScore s r)) =
       probabilityOfAllCandidates s + matchProbability r \<and>
     fst (updateBestScore s r) =
       ((bestScoreAGScore s, bestScoreMatchProbability s) < (agScore r, matchProbability r)) \<and>
     (fst (updateBestScore s r) \<longrightarrow> holds_as_best (snd (updateBestScore s r)) r) \<and>
     (\<not> fst (updateBestScore s r) \<longrightarrow> same_best s (snd (updateBestScore s r)))"
  by (auto simp: updateBestScore_def Let_def less_prod_def holds_as_best_def same_best_def)

theorem updateBestScore_installs_iff_better_witness:
  "fst (updateBestScore example_scores example_better) \<and>
   holds_as_best (snd (updateBestScore example_scores example_better)) example_better \<and>
   probabilityOfAllCandidates (snd (updateBestScore example_scores example_better)) = 5 / 8 \<and>
   \<not> fst (updateBestScore example_scores example_worse) \<and>
   same_best example_scores (snd (updateBestScore example_scores example_worse))"
proof -
  have b: "fst (updateBestScore example_scores example_better)"
    using updateBestScore_installs_iff_better [of example_scores example_better]
    by (simp add: example_scores_def example_better_def less_prod_def)
  have w: "\<not> fst (updateBestScore example_scores example_worse)"
    using updateBestScore_installs_iff_better [of example_scores example_worse]
    by (simp add: example_scores_def example_worse_def less_prod_def)
  have p: "probabilityOfAllCandidates (snd (updateBestScore example_scores example_better)) = 5 / 8"
    using updateBestScore_installs_iff_better [of example_scores example_better]
    by (simp add: example_scores_def example_better_def)
  from b w p
    updateBestScore_installs_iff_better [of example_scores example_better]
    updateBestScore_installs_iff_better [of example_scores example_worse]
  show ?thesis by blast
qed

text \<open>
  C8. When \<open>updateBestScore\<close> returns false, the score set after the call is the one
  before it with \<open>probabilityOfAllCandidates\<close> increased by the result's match
  probability and nothing else changed: the ten best-score fields and
  \<open>probabilityOfBestCandidate\<close> keep their values.
\<close>

theorem updateBestScore_false_changes_only_the_total:
  fixes s :: "('d::{plus,ord}) ScoreSet"
  assumes "\<not> fst (updateBestScore s r)"
  shows
    "snd (updateBestScore s r) =
       s\<lparr>probabilityOfAllCandidates := probabilityOfAllCandidates s + matchProbability r\<rparr> \<and>
     same_best s (snd (updateBestScore s r)) \<and>
     probabilityOfBestCandidate (snd (updateBestScore s r)) = probabilityOfBestCandidate s"
  using assms
  by (auto simp: updateBestScore_def Let_def same_best_def split: if_splits)

theorem updateBestScore_false_changes_only_the_total_witness:
  "\<not> fst (updateBestScore example_scores example_worse) \<and>
   snd (updateBestScore example_scores example_worse) =
     example_scores\<lparr>probabilityOfAllCandidates := 5 / 8\<rparr> \<and>
   bestScoreAGScore (snd (updateBestScore example_scores example_worse)) = 90 \<and>
   probabilityOfBestCandidate (snd (updateBestScore example_scores example_worse)) = 1 / 4"
proof -
  have h: "\<not> fst (updateBestScore example_scores example_worse)"
    by (simp add: updateBestScore_def Let_def example_scores_def example_worse_def)
  show ?thesis
    using h updateBestScore_false_changes_only_the_total [OF h]
    by (simp add: example_scores_def example_worse_def)
qed

text \<open>
  C5. \<open>updateProbabilityOfAllMatches\<close> sets \<open>probabilityOfAllCandidates\<close> to the
  maximum of zero and the old value minus \<open>oldProbability\<close>, so the new value is never
  negative; and \<open>updateProbabilityOfBestMatch\<close> with a non-negative
  \<open>newProbability\<close> keeps a non-negative \<open>probabilityOfAllCandidates\<close> non-negative.
  Probabilities range over any linearly ordered additive group, such as the reals.
\<close>

theorem probabilityOfAllCandidates_never_negative:
  fixes s :: "('d::linordered_ab_group_add) ScoreSet"
  shows
    "probabilityOfAllCandidates (updateProbabilityOfAllMatches s oldProbability) =
       max 0 (probabilityOfAllCandidates s - oldProbability) \<and>
     0 \<le> probabilityOfAllCandidates (updateProbabilityOfAllMatches s oldProbability) \<and>
     (0 \<le> probabilityOfAllCandidates s \<and> 0 \<le> newProbability \<longrightarrow>
        0 \<le> probabilityOfAllCandidates (updateProbabilityOfBestMatch s newProbability))"
  by (simp add: updateProbabilityOfAllMatches_def updateProbabilityOfBestMatch_def max_macro_def)

theorem probabilityOfAllCandidates_never_negative_witness:
  "(0::real) \<le> probabilityOfAllCandidates example_scores \<and>
   probabilityOfAllCandidates (updateProbabilityOfAllMatches example_scores (3 / 4)) = 0 \<and>
   probabilityOfAllCandidates (updateProbabilityOfAllMatches example_scores (1 / 8)) = 3 / 8 \<and>
   0 \<le> probabilityOfAllCandidates (updateProbabilityOfBestMatch example_scores (1 / 8))"
proof -
  have h: "(0::real) \<le> probabilityOfAllCandidates example_scores \<and> (0::real) \<le> 1 / 8"
    by (simp add: example_scores_def)
  show ?thesis
    using h
      probabilityOfAllCandidates_never_negative [of example_scores "3 / 4" "1 / 8"]
      probabilityOfAllCandidates_never_negative [of example_scores "1 / 8" "1 / 8"]
    by (simp add: example_scores_def)
qed

section \<open>Properties of the bitmap of used seeds\<close>

lemma and_bit_mask_iff: "((w :: 8 word) AND 2 ^ k \<noteq> 0) = bit w k"
  by (simp add: and_exp_eq_0_iff_not_bit)

lemma IsSeedUsed_bit:
  "IsSeedUsed su i =
     (if i div 8 < length su then Some (bit (su ! (i div 8)) (i mod 8)) else None)"
  by (simp add: IsSeedUsed_def and_bit_mask_iff)

lemma bit_or_mask: "k < 8 \<Longrightarrow> bit ((w :: 8 word) OR 2 ^ k) k' = (bit w k' \<or> k' = k)"
  by (auto simp: bit_or_iff bit_exp_iff)

lemma same_byte_other_bit: "(j::nat) \<noteq> i \<Longrightarrow> j div 8 = i div 8 \<Longrightarrow> j mod 8 \<noteq> i mod 8"
  by (metis div_mult_mod_eq)

lemma SetSeedUsed_step:
  assumes "i div 8 < length su"
  shows "\<exists>su'. SetSeedUsed su i = Some su' \<and> length su' = length su \<and>
     IsSeedUsed su' i = Some True \<and>
     (\<forall>j. j \<noteq> i \<longrightarrow> IsSeedUsed su' j = IsSeedUsed su j) \<and>
     (\<forall>j. IsSeedUsed su j = Some True \<longrightarrow> IsSeedUsed su' j = Some True)"
proof -
  let ?su' = "su[i div 8 := (su ! (i div 8)) OR push_bit (i mod 8) 1]"
  have s: "SetSeedUsed su i = Some ?su'"
    using assms by (simp add: SetSeedUsed_def)
  have own: "IsSeedUsed ?su' i = Some True"
    using assms by (simp add: IsSeedUsed_bit bit_or_mask)
  have other: "IsSeedUsed ?su' j = IsSeedUsed su j" if "j \<noteq> i" for j
  proof (cases "j div 8 = i div 8")
    case True
    with that have "j mod 8 \<noteq> i mod 8" by (rule same_byte_other_bit)
    with True assms show ?thesis by (simp add: IsSeedUsed_bit bit_or_mask)
  next
    case False
    then show ?thesis by (simp add: IsSeedUsed_bit)
  qed
  have mono: "IsSeedUsed ?su' j = Some True" if "IsSeedUsed su j = Some True" for j
    using that own other [of j] by (cases "j = i") simp_all
  from s own other mono show ?thesis by simp
qed

lemma SetSeedUsed_all_mono:
  "\<forall>k \<in> set ks. k div 8 < length su \<Longrightarrow>
   \<exists>su'. SetSeedUsed_all su ks = Some su' \<and> length su' = length su \<and>
     (\<forall>j. IsSeedUsed su j = Some True \<longrightarrow> IsSeedUsed su' j = Some True) \<and>
     (\<forall>k \<in> set ks. IsSeedUsed su' k = Some True)"
proof (induction ks arbitrary: su)
  case Nil
  then show ?case by simp
next
  case (Cons k ks)
  from Cons.prems have "k div 8 < length su" by simp
  from SetSeedUsed_step [OF this] obtain su1 where
    s1: "SetSeedUsed su k = Some su1" and l1: "length su1 = length su"
    and o1: "IsSeedUsed su1 k = Some True"
    and m1: "\<forall>j. IsSeedUsed su j = Some True \<longrightarrow> IsSeedUsed su1 j = Some True"
    by blast
  from Cons.prems l1 have "\<forall>k \<in> set ks. k div 8 < length su1" by simp
  from Cons.IH [OF this] obtain su' where
    s2: "SetSeedUsed_all su1 ks = Some su'" and l2: "length su' = length su1"
    and m2: "\<forall>j. IsSeedUsed su1 j = Some True \<longrightarrow> IsSeedUsed su' j = Some True"
    and a2: "\<forall>k \<in> set ks. IsSeedUsed su' k = Some True"
    by blast
  from s1 s2 have "SetSeedUsed_all su (k # ks) = Some su'" by simp
  moreover from l1 l2 have "length su' = length su" by simp
  moreover from m1 m2
  have "\<forall>j. IsSeedUsed su j = Some True \<longrightarrow> IsSeedUsed su' j = Some True" by blast
  moreover from o1 m2 a2 have "\<forall>k' \<in> set (k # ks). IsSeedUsed su' k' = Some True" by simp
  ultimately show ?case by blast
qed

text \<open>
  C9. For every index \<open>i\<close> whose byte lies within the bitmap, \<open>SetSeedUsed i\<close>
  succeeds, after it \<open>IsSeedUsed i\<close> is true, and \<open>IsSeedUsed j\<close> is what it was for
  every \<open>j \<noteq> i\<close>. No call clears a bit: an index that was used is still used after
  one call, and after any sequence of calls at indices within the bitmap, which also
  leaves every index of the sequence used.
\<close>

theorem SetSeedUsed_sets_one_bit_and_clears_none:
  assumes "i div 8 < length su" and "\<forall>k \<in> set ks. k div 8 < length su"
  shows
    "(\<exists>su'. SetSeedUsed su i = Some su' \<and>
        IsSeedUsed su' i = Some True \<and>
        (\<forall>j. j \<noteq> i \<longrightarrow> IsSeedUsed su' j = IsSeedUsed su j) \<and>
        (\<forall>j. IsSeedUsed su j = Some True \<longrightarrow> IsSeedUsed su' j = Some True)) \<and>
     (\<exists>su''. SetSeedUsed_all su ks = Some su'' \<and>
        (\<forall>j. IsSeedUsed su j = Some True \<longrightarrow> IsSeedUsed su'' j = Some True) \<and>
        (\<forall>k \<in> set ks. IsSeedUsed su'' k = Some True))"
proof -
  from SetSeedUsed_step [OF assms(1)] have one:
    "\<exists>su'. SetSeedUsed su i = Some su' \<and>
        IsSeedUsed su' i = Some True \<and>
        (\<forall>j. j \<noteq> i \<longrightarrow> IsSeedUsed su' j = IsSeedUsed su j) \<and>
        (\<forall>j. IsSeedUsed su j = Some True \<longrightarrow> IsSeedUsed su' j = Some True)"
    by blast
  from SetSeedUsed_all_mono [OF assms(2)] have many:
    "\<exists>su''. SetSeedUsed_all su ks = Some su'' \<and>
        (\<forall>j. IsSeedUsed su j = Some True \<longrightarrow> IsSeedUsed su'' j = Some True) \<and>
        (\<forall>k \<in> set ks. IsSeedUsed su'' k = Some True)"
    by blast
  from one many show ?thesis ..
qed

theorem SetSeedUsed_sets_one_bit_and_clears_none_witness:
  "SetSeedUsed [4, 0] 3 = Some [12, 0] \<and>
   IsSeedUsed [12, 0] 3 = Some True \<and>
   IsSeedUsed [12, 0] 2 = Some True \<and>
   IsSeedUsed [12, 0] 4 = IsSeedUsed [4, 0] 4 \<and>
   SetSeedUsed_all [4, 0] [3, 9, 1] = Some [14, 2] \<and>
   IsSeedUsed [14, 2] 2 = Some True \<and>
   IsSeedUsed [14, 2] 9 = Some True"
proof -
  have h1: "(3::nat) div 8 < length [4, 0 :: 8 word]" by simp
  have h2: "\<forall>k \<in> set [3, 9, 1 :: nat]. k div 8 < length [4, 0 :: 8 word]" by simp
  have old: "IsSeedUsed [4, 0] 2 = Some True" by (simp add: IsSeedUsed_def)
  have s1: "SetSeedUsed [4, 0] 3 = Some [12, 0]" by (simp add: SetSeedUsed_def)
  have s2: "SetSeedUsed_all [4, 0] [3, 9, 1] = Some [14, 2]" by (simp add: SetSeedUsed_def)
  from SetSeedUsed_sets_one_bit_and_clears_none [OF h1 h2] old s1 s2
  show ?thesis by auto
qed

section \<open>Properties of the slow-progress check\<close>

text \<open>
  C6. \<open>checkIfTooSlow\<close> never ends the process when \<open>killIfTooSlow\<close> is false: the
  call returns and changes nothing. When \<open>killIfTooSlow\<close> is true it ends the process
  exactly when a check has been made before (\<open>lastTooSlowCheck \<noteq> 0\<close>), at least five
  minutes (300000 ms) have passed since that check, and fewer than 300000 writes
  happened since; in every other case it returns, and the writer differs from the one
  before the call at most in \<open>lastTooSlowCheck\<close> and \<open>writesSinceLastTooSlowCheck\<close>.
\<close>

theorem checkIfTooSlow_exits_only_when_slow:
  "(\<not> killIfTooSlow w \<longrightarrow> checkIfTooSlow w now = Returned w) \<and>
   ((\<exists>code. checkIfTooSlow w now = SoftExit code) =
      (killIfTooSlow w \<and> lastTooSlowCheck w \<noteq> 0 \<and>
       lastTooSlowCheck w + 5 * 60 * 1000 \<le> now \<and>
       writesSinceLastTooSlowCheck w < 5 * 60 * 1000)) \<and>
   ((\<forall>code. checkIfTooSlow w now \<noteq> SoftExit code) \<longrightarrow>
      (\<exists>l n. checkIfTooSlow w now =
         Returned (w\<lparr>lastTooSlowCheck := l, writesSinceLastTooSlowCheck := n\<rparr>)))"
proof -
  have a: "\<not> killIfTooSlow w \<longrightarrow> checkIfTooSlow w now = Returned w"
    by (simp add: checkIfTooSlow_def)
  have b: "(\<exists>code. checkIfTooSlow w now = SoftExit code) =
      (killIfTooSlow w \<and> lastTooSlowCheck w \<noteq> 0 \<and>
       lastTooSlowCheck w + 5 * 60 * 1000 \<le> now \<and>
       writesSinceLastTooSlowCheck w < 5 * 60 * 1000)"
    by (simp add: checkIfTooSlow_def tooSlowCheckPeriod_def
        tooSlowCheckMinReadsPerCheckPeriod_def)
  have c: "\<exists>l n. checkIfTooSlow w now =
         Returned (w\<lparr>lastTooSlowCheck := l, writesSinceLastTooSlowCheck := n\<rparr>)"
    if "\<forall>code. checkIfTooSlow w now \<noteq> SoftExit code"
  proof (cases "killIfTooSlow w")
    case False
    have "w = w\<lparr>lastTooSlowCheck := lastTooSlowCheck w,
                writesSinceLastTooSlowCheck := writesSinceLastTooSlowCheck w\<rparr>"
      by simp
    with False a show ?thesis by metis
  next
    case True
    show ?thesis
    proof (cases "lastTooSlowCheck w + tooSlowCheckPeriod \<le> now")
      case le: True
      with True that have
        "checkIfTooSlow w now =
           Returned (w\<lparr>lastTooSlowCheck := now, writesSinceLastTooSlowCheck := 0 + 1\<rparr>)"
        by (auto simp: checkIfTooSlow_def split: if_splits)
      then show ?thesis by blast
    next
      case gt: False
      have "w\<lparr>writesSinceLastTooSlowCheck := writesSinceLastTooSlowCheck w + 1\<rparr> =
            w\<lparr>lastTooSlowCheck := lastTooSlowCheck w,
              writesSinceLastTooSlowCheck := writesSinceLastTooSlowCheck w + 1\<rparr>"
        by simp
      moreover from True gt have
        "checkIfTooSlow w now =
           Returned (w\<lparr>writesSinceLastTooSlowCheck := writesSinceLastTooSlowCheck w + 1\<rparr>)"
        by (simp add: checkIfTooSlow_def)
      ultimately show ?thesis by metis
    qed
  qed
  from a b c show ?thesis by blast
qed

theorem checkIfTooSlow_exits_only_when_slow_witness:
  "checkIfTooSlow (example_writer\<lparr>killIfTooSlow := False\<rparr>) 301000 =
     Returned (example_writer\<lparr>killIfTooSlow := False\<rparr>) \<and>
   checkIfTooSlow example_writer 301000 = SoftExit 1 \<and>
   (\<exists>l n. checkIfTooSlow example_writer 300999 =
      Returned (example_writer\<lparr>lastTooSlowCheck := l, writesSinceLastTooSlowCheck := n\<rparr>))"
proof -
  have off: "\<not> killIfTooSlow (example_writer\<lparr>killIfTooSlow := False\<rparr>)"
    by simp
  have early: "\<forall>code. checkIfTooSlow example_writer 300999 \<noteq> SoftExit code"
    using checkIfTooSlow_exits_only_when_slow [of example_writer 300999]
    by (simp add: example_writer_def)
  have late: "checkIfTooSlow example_writer 301000 = SoftExit 1"
    by (simp add: checkIfTooSlow_def example_writer_def tooSlowCheckPeriod_def
        tooSlowCheckMinReadsPerCheckPeriod_def)
  from off early late
    checkIfTooSlow_exits_only_when_slow [of "example_writer\<lparr>killIfTooSlow := False\<rparr>" 301000]
    checkIfTooSlow_exits_only_when_slow [of example_writer 300999]
  show ?thesis by blast
qed

section \<open>Properties of the adjustment of a result\<close>

lemma give_up_dropped: "dropped I (give_up I st)"
  by (simp add: dropped_def give_up_def)

lemma crossing_affineGap:
  assumes "addFrontClipping \<noteq> 0"
    and "crosses_contig_boundary g (location (result st)) (finalLocation st) addFrontClipping"
  shows "adjust_affineGap g ops I addFrontClipping st =
           give_up I (st\<lparr>nAdjustments := nAdjustments st + 1\<rparr>)"
  using assms
  by (auto simp: adjust_affineGap_def Let_def crosses_contig_boundary_def
      originalContig_def newContig_def split: option.splits)

lemma crossing_editDistance:
  assumes "addFrontClipping \<noteq> 0"
    and "crosses_contig_boundary g (location (result st)) (finalLocation st) addFrontClipping"
  shows "adjust_editDistance g ops I addFrontClipping st =
           give_up I (st\<lparr>nAdjustments := nAdjustments st + 1\<rparr>)"
  using assms
  by (auto simp: adjust_editDistance_def Let_def crosses_contig_boundary_def
      originalContig_def newContig_def split: option.splits)

text \<open>A dropped candidate stays dropped, whatever the formatter asks for next.\<close>

lemma adjust_affineGap_keeps_dropped:
  "dropped I st \<Longrightarrow> dropped I (adjust_affineGap g ops I a st)"
  by (simp add: adjust_affineGap_def Let_def originalContig_def newContig_def
      dropped_def give_up_def)

lemma adjust_editDistance_keeps_dropped:
  "dropped I st \<Longrightarrow> dropped I (adjust_editDistance g ops I a st)"
  by (simp add: adjust_editDistance_def Let_def originalContig_def newContig_def
      dropped_def give_up_def)

lemma format_result_keeps_dropped:
  "dropped I st \<Longrightarrow> format_result fuel writeRead path g ops I st = Some st' \<Longrightarrow>
   dropped I st'"
proof (induction fuel arbitrary: st)
  case 0
  then show ?case by simp
next
  case (Suc fuel)
  show ?case
  proof (cases "writeRead (result st) (finalLocation st) (read st)")
    case None
    with Suc.prems show ?thesis by simp
  next
    case (Some a)
    let ?st1 = "if path then adjust_affineGap g ops I a st
                else adjust_editDistance g ops I a st"
    from Suc.prems(1) have d1: "dropped I ?st1"
      by (simp add: adjust_affineGap_keeps_dropped adjust_editDistance_keeps_dropped)
    show ?thesis
    proof (cases "blewBuffer ?st1")
      case True
      with Some Suc.prems(2) have "st' = ?st1" by (simp add: Let_def)
      with d1 show ?thesis by simp
    next
      case False
      with Some Suc.prems(2) have "format_result fuel writeRead path g ops I ?st1 = Some st'"
        by (simp add: Let_def)
      from Suc.IH [OF d1 this] show ?thesis .
    qed
  qed
qed

text \<open>
  C1. Let the formatter send a result back with a non-zero \<open>addFrontClipping\<close>, and let
  this adjustment cross a contig boundary: the contig at the adjusted location is null
  or is not the contig at the original location, or the adjusted location to write lies
  past the contig's end minus the chromosome padding. Then the affine-gap path and the
  edit-distance path both run the give-up branch: the result's status is NotFound, its
  location is InvalidGenomeLocation, its score is -1 and its direction is FORWARD, and
  the location to write is InvalidGenomeLocation. On either path the candidate is still
  dropped when the loop for this result ends.
\<close>

theorem contig_boundary_crossing_drops_the_candidate:
  assumes "addFrontClipping \<noteq> 0"
    and "crosses_contig_boundary g (location (result st)) (finalLocation st) addFrontClipping"
  shows
    "adjust_affineGap g ops I addFrontClipping st =
       give_up I (st\<lparr>nAdjustments := nAdjustments st + 1\<rparr>) \<and>
     adjust_editDistance g ops I addFrontClipping st =
       give_up I (st\<lparr>nAdjustments := nAdjustments st + 1\<rparr>) \<and>
     dropped I (adjust_affineGap g ops I addFrontClipping st) \<and>
     dropped I (adjust_editDistance g ops I addFrontClipping st) \<and>
     (\<forall>fuel writeRead path st'.
        writeRead (result st) (finalLocation st) (read st) = Some addFrontClipping \<longrightarrow>
        format_result fuel writeRead path g ops I st = Some st' \<longrightarrow> dropped I st')"
proof -
  note ag = crossing_affineGap [OF assms, of ops I]
  note ed = crossing_editDistance [OF assms, of ops I]
  have dag: "dropped I (adjust_affineGap g ops I addFrontClipping st)"
    unfolding ag by (rule give_up_dropped)
  have ded: "dropped I (adjust_editDistance g ops I addFrontClipping st)"
    unfolding ed by (rule give_up_dropped)
  have loop: "dropped I st'"
    if w: "writeRead (result st) (finalLocation st) (read st) = Some addFrontClipping"
      and f: "format_result fuel writeRead path g ops I st = Some st'"
    for fuel writeRead path st'
  proof (cases fuel)
    case 0
    with f show ?thesis by simp
  next
    case (Suc k)
    let ?st1 = "if path then adjust_affineGap g ops I addFrontClipping st
                else adjust_editDistance g ops I addFrontClipping st"
    from dag ded have d1: "dropped I ?st1" by simp
    show ?thesis
    proof (cases "blewBuffer ?st1")
      case True
      with w f Suc have "st' = ?st1" by (simp add: Let_def)
      with d1 show ?thesis by simp
    next
      case False
      with w f Suc have "format_result k writeRead path g ops I ?st1 = Some st'"
        by (simp add: Let_def)
      from format_result_keeps_dropped [OF d1 this] show ?thesis .
    qed
  qed
  from ag ed dag ded loop show ?thesis by blast
qed

theorem contig_boundary_crossing_drops_the_candidate_witness:
  "crosses_contig_boundary example_genome 5990 5990 20 \<and>
   result (adjust_affineGap example_genome example_read_ops 4294967295 20 example_adjusting) =
     example_better\<lparr>status := NotFound, location := 4294967295, score := - 1,
                    direction := FORWARD\<rparr> \<and>
   result (adjust_editDistance example_genome example_read_ops 4294967295 20 example_adjusting) =
     example_better\<lparr>status := NotFound, location := 4294967295, score := - 1,
                    direction := FORWARD\<rparr> \<and>
   finalLocation
     (adjust_editDistance example_genome example_read_ops 4294967295 20 example_adjusting) =
     4294967295"
proof -
  have nz: "(20::int) \<noteq> 0" by simp
  have cr: "crosses_contig_boundary example_genome (location (result example_adjusting))
              (finalLocation example_adjusting) 20"
    by (simp add: crosses_contig_boundary_def example_genome_def example_adjusting_def)
  from contig_boundary_crossing_drops_the_candidate
    [OF nz cr, of example_read_ops 4294967295]
  have "adjust_affineGap example_genome example_read_ops 4294967295 20 example_adjusting =
          give_up 4294967295 (example_adjusting\<lparr>nAdjustments := nAdjustments example_adjusting + 1\<rparr>)"
    and "adjust_editDistance example_genome example_read_ops 4294967295 20 example_adjusting =
          give_up 4294967295 (example_adjusting\<lparr>nAdjustments := nAdjustments example_adjusting + 1\<rparr>)"
    by blast+
  with cr show ?thesis
    by (simp add: give_up_def example_adjusting_def)
qed

section \<open>Properties of the FASTA reader\<close>

lemma toupper_not_lower:
  "\<not> (97 \<le> (of_char (toupper c) :: nat) \<and> (of_char (toupper c) :: nat) \<le> 122)"
  by (auto simp: toupper_def)

lemma valid_upper: "isValidGenomeCharacter (toupper c) = is_base (toupper c)"
  using toupper_not_lower [of c]
  by (auto simp: isValidGenomeCharacter_def is_base_def)

lemma data_for_genome_eq:
  "data_for_genome lineBuffer = upper_case_and_replace (truncate_at (CHR 0x0A) lineBuffer)"
  by (simp add: data_for_genome_def upper_cased_def upper_case_and_replace_def valid_upper)

lemma is_base_N: "is_base (CHR ''N'')"
  by (simp add: is_base_def)

lemma upper_case_and_replace_bases: "list_all is_base (upper_case_and_replace s)"
  by (induction s) (simp_all add: upper_case_and_replace_def is_base_N)

lemma added_data_append: "added_data (xs @ ys) = added_data xs @ added_data ys"
  by (induction xs rule: added_data.induct) simp_all

lemma read_lines_added_data:
  "read_lines args lines st = Inr st' \<Longrightarrow>
   added_data (calls st') =
     added_data (calls st) @ map (contribution (chromosomePaddingSize args)) lines"
proof (induction lines arbitrary: st)
  case Nil
  then show ?case by simp
next
  case (Cons bytes rest)
  show ?case
  proof (cases "is_header bytes")
    case True
    with Cons.prems show ?thesis
      by (auto simp: Let_def is_header_def contribution_def added_data_append
          dest!: Cons.IH split: if_splits)
  next
    case False
    with Cons.prems show ?thesis
      by (auto simp: Let_def is_header_def contribution_def added_data_append
          data_for_genome_eq dest!: Cons.IH split: if_splits)
  qed
qed

text \<open>
  C10. When \<open>ReadFASTAGenome\<close> returns a genome, the data it added are, in the order
  of the file, the padding for each header line and for each data line the line
  upper-cased with every character outside A, C, G, T, N replaced by \<open>N\<close>, followed
  by the final padding. So what every data line contributes consists of bases only, and
  the body of the genome consists of bases and the lower-case \<open>n\<close> of the padding.
\<close>

theorem ReadFASTAGenome_adds_only_bases:
  assumes "ReadFASTAGenome args file = Inr cs"
  shows
    "\<exists>lines. file = Some lines \<and>
       added_data cs =
         map (contribution (chromosomePaddingSize args)) lines @
         [paddingBuffer (chromosomePaddingSize args)] \<and>
       (\<forall>bytes \<in> set lines. \<not> is_header bytes \<longrightarrow>
          contribution (chromosomePaddingSize args) bytes =
            upper_case_and_replace (truncate_at (CHR 0x0A) (cstring bytes)) \<and>
          list_all is_base (contribution (chromosomePaddingSize args) bytes)) \<and>
       list_all (\<lambda>c. is_base c \<or> c = CHR ''n'') (genome_body cs)"
proof -
  let ?p = "chromosomePaddingSize args"
  from assms obtain lines st where f: "file = Some lines"
    and r: "read_lines args lines
              \<lparr>warningIssued = False, inAContig = False, contigLength = 0,
               lastContigName = [], calls = []\<rparr> = Inr st"
    and cs: "cs = calls st @
              [MarkALT (lastContigName st) (contigLength st), AddData (paddingBuffer ?p),
               FillInContigLengths, SortContigsByName]"
    by (auto simp: ReadFASTAGenome_def split: option.splits sum.splits if_splits)
  from read_lines_added_data [OF r] cs
  have ad: "added_data cs = map (contribution ?p) lines @ [paddingBuffer ?p]"
    by (simp add: added_data_append)
  have each: "list_all (\<lambda>c. is_base c \<or> c = CHR ''n'') (contribution ?p bytes)" for bytes
    using upper_case_and_replace_bases [of "truncate_at (CHR 0x0A) (cstring bytes)"]
    by (auto simp: contribution_def paddingBuffer_def list_all_iff)
  have pad: "list_all (\<lambda>c. is_base c \<or> c = CHR ''n'') (paddingBuffer ?p)"
    by (simp add: paddingBuffer_def list_all_iff)
  have body: "list_all (\<lambda>c. is_base c \<or> c = CHR ''n'') (genome_body cs)"
    using each pad unfolding genome_body_def ad
    by (auto simp: list_all_iff)
  have lines: "\<forall>bytes \<in> set lines. \<not> is_header bytes \<longrightarrow>
         contribution ?p bytes = upper_case_and_replace (truncate_at (CHR 0x0A) (cstring bytes)) \<and>
         list_all is_base (contribution ?p bytes)"
    by (simp add: contribution_def upper_case_and_replace_bases)
  from f ad lines body show ?thesis by blast
qed

theorem ReadFASTAGenome_adds_only_bases_witness:
  "ReadFASTAGenome example_fasta_args (Some example_fasta) =
     Inr [AddData ''nnn'', StartContig ''chr1'', AddData ''ACGTNNNNN'', MarkALT ''chr1'' 9,
          AddData ''nnn'', StartContig ''chr2'', AddData ''GGNA'', MarkALT ''chr2'' 4,
          AddData ''nnn'', FillInContigLengths, SortContigsByName] \<and>
   genome_body
     [AddData ''nnn'', StartContig ''chr1'', AddData ''ACGTNNNNN'', MarkALT ''chr1'' 9,
      AddData ''nnn'', StartContig ''chr2'', AddData ''GGNA'', MarkALT ''chr2'' 4,
      AddData ''nnn'', FillInContigLengths, SortContigsByName] = ''nnnACGTNNNNNnnnGGNAnnn'' \<and>
   list_all (\<lambda>c. is_base c \<or> c = CHR ''n'') ''nnnACGTNNNNNnnnGGNAnnn''"
proof -
  let ?cs = "[AddData ''nnn'', StartContig ''chr1'', AddData ''ACGTNNNNN'', MarkALT ''chr1'' 9,
      AddData ''nnn'', StartContig ''chr2'', AddData ''GGNA'', MarkALT ''chr2'' 4,
      AddData ''nnn'', FillInContigLengths, SortContigsByName]"
  have h: "ReadFASTAGenome example_fasta_args (Some example_fasta) = Inr ?cs"
    by code_simp
  have b: "genome_body ?cs = ''nnnACGTNNNNNnnnGGNAnnn''"
    by (simp add: genome_body_def)
  from ReadFASTAGenome_adds_only_bases [OF h]
  have "list_all (\<lambda>c. is_base c \<or> c = CHR ''n'') (genome_body ?cs)"
    by blast
  with h b show ?thesis by simp
qed

end
